theory Spec2Isabelle
  imports Main
begin

section \<open>Settings (src/core/config.py)\<close>

text \<open>
  The three fields of \<open>Settings\<close> the authentication code reads. \<open>SECRET_KEY\<close> has no
  default; \<open>ALGORITHM\<close> defaults to HS256 and \<open>ACCESS_TOKEN_EXPIRE_MINUTES\<close> to 30.
\<close>

record Settings =
  SECRET_KEY :: string
  ALGORITHM :: string
  ACCESS_TOKEN_EXPIRE_MINUTES :: int

section \<open>Time\<close>

text \<open>
  A \<open>datetime\<close> is a count of microseconds since the epoch (UTC), a \<open>timedelta\<close> a count
  of microseconds. Python keeps a \<open>datetime\<close> within the years 1 to 9999 and a
  \<open>timedelta\<close> within 999999999 days either way; these are the four bounds below. A
  \<open>timedelta\<close> is falsy in Python exactly when it is zero.
\<close>

type_synonym datetime = int
type_synonym timedelta = int

definition datetime_min :: datetime where
  "datetime_min = - 62135596800000000"

definition datetime_max :: datetime where
  "datetime_max = 253402300799999999"

definition timedelta_min :: timedelta where
  "timedelta_min = - 86399999913600000000"

definition timedelta_max :: timedelta where
  "timedelta_max = 86399999999999999999"

section \<open>Exceptions\<close>

text \<open>
  \<open>HTTPException\<close> carries status code, detail and headers. \<open>ValueError\<close> stands for
  what the password library may raise (the repository installs no handler for it),
  \<open>IntegrityError\<close> for a commit the store refuses, \<open>OverflowError\<close> for a date or a
  duration that Python cannot represent.
\<close>

datatype exn =
  HTTPException (status_code: nat) (detail: string) (headers: "(string \<times> string) list")
  | ValueError
  | IntegrityError
  | OverflowError

text \<open>The exceptions of \<open>jose\<close>; the last two are subclasses of \<open>JWTError\<close>.\<close>

datatype jwt_error = JWTError | ExpiredSignatureError | JWTClaimsError

datatype validation_error = ValidationError

text \<open>
  \<open>timedelta(minutes=m)\<close> and \<open>datetime + timedelta\<close>: both raise \<open>OverflowError\<close> when
  the result leaves the range of its type.
\<close>

definition timedelta_minutes :: "int \<Rightarrow> exn + timedelta" where
  "timedelta_minutes m =
     (let us = m * 60000000
      in if timedelta_min \<le> us \<and> us \<le> timedelta_max then Inr us else Inl OverflowError)"

definition datetime_add :: "datetime \<Rightarrow> timedelta \<Rightarrow> exn + datetime" where
  "datetime_add now d =
     (if datetime_min \<le> now + d \<and> now + d \<le> datetime_max then Inr (now + d)
      else Inl OverflowError)"

section \<open>Schemas (src/schemas.py)\<close>

record UserBase =
  email :: string
  username :: string
  is_active :: bool

record UserCreate = UserBase +
  password :: string

record UserRead = UserBase +
  id' :: int
  created_at :: datetime

text \<open>The one field constraint of \<open>UserCreate\<close>: \<open>password\<close> has \<open>min_length=6\<close>.\<close>

definition UserCreate_valid :: "UserCreate \<Rightarrow> bool" where
  "UserCreate_valid user_create = (6 \<le> length (password user_create))"

record Token =
  access_token :: string
  token_type :: string

text \<open>
  The values a decoded claim set can hold. \<open>JNone\<close> is Python's \<open>None\<close>, also what
  \<open>dict.get\<close> returns for a missing key; \<open>JDatetime\<close> is the \<open>datetime\<close> that
  \<open>create_access_token\<close> hands to the encoder.
\<close>

datatype jval = JNone | JStr string | JInt int | JBool bool | JDatetime datetime

type_synonym pydict = "string \<rightharpoonup> jval"

definition dict_get :: "pydict \<Rightarrow> string \<Rightarrow> jval" where
  "dict_get d k = (case d k of None \<Rightarrow> JNone | Some v \<Rightarrow> v)"

record TokenPayload =
  sub :: "string option"

text \<open>
  Constructing \<open>TokenPayload(sub=v)\<close>: the field is \<open>Optional[str]\<close>, so a string and
  \<open>None\<close> validate and every other value raises \<open>ValidationError\<close>.
\<close>

fun TokenPayload_init :: "jval \<Rightarrow> validation_error + TokenPayload" where
  "TokenPayload_init JNone = Inr \<lparr>sub = None\<rparr>"
| "TokenPayload_init (JStr s) = Inr \<lparr>sub = Some s\<rparr>"
| "TokenPayload_init _ = Inl ValidationError"

text \<open>The two fields of \<open>OAuth2PasswordRequestForm\<close> the login handler reads.\<close>

record OAuth2PasswordRequestForm =
  username :: string
  password :: string

section \<open>The user table and the session\<close>

text \<open>
  Modelled from the spec: \<open>src/model.py\<close>, which declares the \<open>User\<close> table, is not
  among the sources. The fields are those of the spec's Principal
  (\<open>id, username, email, password_hash, is_active, created_at\<close>), and the store refuses a
  row whose username or email is already present. The identifier is the one the store
  assigns on commit, the creation time is the time of the call.
\<close>

record User =
  id' :: int
  username :: string
  email :: string
  password_hash :: string
  is_active :: bool
  created_at :: datetime

text \<open>The session: the rows of the user table in insertion order, and the next identifier.\<close>

record Session =
  rows :: "User list"
  next_id :: int

definition UserRead_from :: "User \<Rightarrow> UserRead" where
  "UserRead_from u =
     \<lparr>UserBase.email = User.email u, UserBase.username = User.username u,
      UserBase.is_active = User.is_active u,
      UserRead.id' = User.id' u, UserRead.created_at = User.created_at u\<rparr>"

section \<open>Password hashing (src/core/security.py)\<close>

text \<open>
  Both functions hand their arguments to the \<open>CryptContext\<close> of \<open>passlib\<close>, which is a
  parameter here: \<open>pwd_verify\<close> returns a verdict or raises, \<open>pwd_hash\<close> takes the salt
  it draws as an explicit argument and returns the hash or raises (as \<open>passlib\<close> does
  for a password with a NUL byte).
\<close>

definition verify_password :: "(string \<Rightarrow> string \<Rightarrow> exn + bool) \<Rightarrow> string \<Rightarrow> string \<Rightarrow> exn + bool" where
  "verify_password pwd_verify plain_password hashed_password =
     pwd_verify plain_password hashed_password"

definition get_password_hash ::
  "('salt \<Rightarrow> string \<Rightarrow> exn + string) \<Rightarrow> 'salt \<Rightarrow> string \<Rightarrow> exn + string" where
  "get_password_hash pwd_hash salt password' = pwd_hash salt password'"

section \<open>User operations (src/curd/user.py)\<close>

definition get_user_by_email :: "Session \<Rightarrow> string \<Rightarrow> User option" where
  "get_user_by_email session email' = find (\<lambda>u. User.email u = email') (rows session)"

definition get_user_by_username :: "Session \<Rightarrow> string \<Rightarrow> User option" where
  "get_user_by_username session username' =
     find (\<lambda>u. User.username u = username') (rows session)"

text \<open>
  \<open>create_user\<close> hashes the password, builds the row with \<open>is_active=True\<close>, adds and
  commits it, and returns the refreshed row. An exception of the hashing leaves the
  session as it was. The commit is where the store refuses a username or an email that
  is already present. The result is the session after the call and the row or the
  exception.
\<close>

definition create_user ::
  "('salt \<Rightarrow> string \<Rightarrow> exn + string) \<Rightarrow> 'salt \<Rightarrow> datetime \<Rightarrow> Session \<Rightarrow> UserCreate
     \<Rightarrow> Session \<times> (exn + User)" where
  "create_user pwd_hash salt now session user_create =
     (case get_password_hash pwd_hash salt (UserCreate.password user_create) of
        Inl e \<Rightarrow> (session, Inl e)
      | Inr hashed_password \<Rightarrow>
          (let db_user = \<lparr>User.id' = next_id session,
                          User.username = UserBase.username user_create,
                          User.email = UserBase.email user_create,
                          User.password_hash = hashed_password,
                          User.is_active = True,
                          User.created_at = now\<rparr>
           in if get_user_by_username session (User.username db_user) \<noteq> None
                 \<or> get_user_by_email session (User.email db_user) \<noteq> None
              then (session, Inl IntegrityError)
              else (session\<lparr>rows := rows session @ [db_user],
                             next_id := next_id session + 1\<rparr>,
                    Inr db_user)))"

definition authenticate_user ::
  "(string \<Rightarrow> string \<Rightarrow> exn + bool) \<Rightarrow> Session \<Rightarrow> string \<Rightarrow> string \<Rightarrow> exn + User option" where
  "authenticate_user pwd_verify session username' password' =
     (case get_user_by_username session username' of
        None \<Rightarrow> Inr None
      | Some user \<Rightarrow>
          (case verify_password pwd_verify password' (User.password_hash user) of
             Inl e \<Rightarrow> Inl e
           | Inr ok \<Rightarrow> if \<not> ok then Inr None else Inr (Some user)))"

section \<open>Tokens (src/core/auth.py)\<close>

text \<open>
  \<open>jwt.encode\<close> and \<open>jwt.decode\<close> of \<open>jose\<close> are parameters. The decoder reads the
  clock, so it takes the current time; it returns the claim set or raises a \<open>JWTError\<close>.
  \<open>str\<close> is Python's \<open>str()\<close> on the subject's type. \<open>create_access_token\<close> returns
  the token, or raises \<open>OverflowError\<close> when the expiry it computes is not a
  \<open>datetime\<close>.
\<close>

type_synonym jwt_encode = "pydict \<Rightarrow> string \<Rightarrow> string \<Rightarrow> string"
type_synonym jwt_decode = "string \<Rightarrow> string \<Rightarrow> string list \<Rightarrow> datetime \<Rightarrow> jwt_error + pydict"

definition create_access_token ::
  "jwt_encode \<Rightarrow> ('a \<Rightarrow> string) \<Rightarrow> Settings \<Rightarrow> datetime \<Rightarrow> 'a \<Rightarrow> timedelta option
     \<Rightarrow> exn + string" where
  "create_access_token jwt_encode str settings now subject expires_delta =
     (let default_expire =
            (case timedelta_minutes (ACCESS_TOKEN_EXPIRE_MINUTES settings) of
               Inl e \<Rightarrow> Inl e
             | Inr minutes \<Rightarrow> datetime_add now minutes)
      in case (case expires_delta of
                 Some d \<Rightarrow> if d \<noteq> 0 then datetime_add now d else default_expire
               | None \<Rightarrow> default_expire) of
           Inl e \<Rightarrow> Inl e
         | Inr expire \<Rightarrow>
             (let to_encode = [''exp'' \<mapsto> JDatetime expire, ''sub'' \<mapsto> JStr (str subject)]
              in Inr (jwt_encode to_encode (SECRET_KEY settings) (ALGORITHM settings))))"

definition credentials_exception :: exn where
  "credentials_exception =
     HTTPException 401 ''Could not validate credentials'' [(''WWW-Authenticate'', ''Bearer'')]"

text \<open>
  \<open>get_current_user\<close>: decode, read \<open>sub\<close>, validate it as a \<open>TokenPayload\<close>, look the
  user up. A \<open>JWTError\<close>, a \<open>ValidationError\<close>, a \<open>sub\<close> that is \<open>None\<close> and a
  lookup that finds no row all raise the one \<open>credentials_exception\<close>. A query for a
  username that is \<open>None\<close> matches no row.
\<close>

definition get_current_user ::
  "jwt_decode \<Rightarrow> Settings \<Rightarrow> datetime \<Rightarrow> Session \<Rightarrow> string \<Rightarrow> exn + User" where
  "get_current_user jwt_decode settings now session token =
     (case jwt_decode token (SECRET_KEY settings) [ALGORITHM settings] now of
        Inl e \<Rightarrow> Inl credentials_exception
      | Inr payload \<Rightarrow>
          (let username' = dict_get payload ''sub''
           in if username' = JNone then Inl credentials_exception
              else
                (case TokenPayload_init username' of
                   Inl e \<Rightarrow> Inl credentials_exception
                 | Inr token_data \<Rightarrow>
                     (case (case sub token_data of
                              None \<Rightarrow> None
                            | Some name \<Rightarrow> get_user_by_username session name) of
                        None \<Rightarrow> Inl credentials_exception
                      | Some user \<Rightarrow> Inr user))))"

section \<open>Handlers (src/api/login.py)\<close>

text \<open>
  \<open>register\<close> answers 400 when the username or the email is taken, and otherwise
  returns the created user through the response model \<open>UserRead\<close>.
\<close>

definition register ::
  "('salt \<Rightarrow> string \<Rightarrow> exn + string) \<Rightarrow> 'salt \<Rightarrow> datetime \<Rightarrow> Session \<Rightarrow> UserCreate
     \<Rightarrow> Session \<times> (exn + UserRead)" where
  "register pwd_hash salt now session user_in =
     (if get_user_by_username session (UserBase.username user_in) \<noteq> None
         \<or> get_user_by_email session (UserBase.email user_in) \<noteq> None
      then (session, Inl (HTTPException 400 ''User already exists.'' []))
      else
        (case create_user pwd_hash salt now session user_in of
           (session', Inl e) \<Rightarrow> (session', Inl e)
         | (session', Inr new_user) \<Rightarrow> (session', Inr (UserRead_from new_user))))"

definition login_for_access_token ::
  "jwt_encode \<Rightarrow> (string \<Rightarrow> string \<Rightarrow> exn + bool) \<Rightarrow> Settings \<Rightarrow> datetime \<Rightarrow> Session
     \<Rightarrow> OAuth2PasswordRequestForm \<Rightarrow> exn + Token" where
  "login_for_access_token jwt_encode pwd_verify settings now session form_data =
     (case authenticate_user pwd_verify session
             (OAuth2PasswordRequestForm.username form_data)
             (OAuth2PasswordRequestForm.password form_data) of
        Inl e \<Rightarrow> Inl e
      | Inr None \<Rightarrow>
          Inl (HTTPException 401 ''Incorrect username or password''
                 [(''WWW-Authenticate'', ''Bearer'')])
      | Inr (Some user) \<Rightarrow>
          if \<not> User.is_active user then Inl (HTTPException 400 ''Inactive user'' [])
          else
            (case timedelta_minutes (ACCESS_TOKEN_EXPIRE_MINUTES settings) of
               Inl e \<Rightarrow> Inl e
             | Inr access_token_expires \<Rightarrow>
                 (case create_access_token jwt_encode (\<lambda>s. s) settings now
                         (User.username user) (Some access_token_expires) of
                    Inl e \<Rightarrow> Inl e
                  | Inr token \<Rightarrow> Inr \<lparr>access_token = token, token_type = ''bearer''\<rparr>)))"

section \<open>What the token library is expected to do\<close>

text \<open>
  The one property of \<open>jose\<close> the results below rest on, for a key and an algorithm:
  a claim set with expiry \<open>e\<close> and subject \<open>s\<close>, encoded and then decoded at a time
  not after \<open>e\<close>, decodes, and its \<open>sub\<close> is \<open>s\<close> again.
\<close>

definition jwt_roundtrip :: "jwt_encode \<Rightarrow> jwt_decode \<Rightarrow> string \<Rightarrow> string \<Rightarrow> bool" where
  "jwt_roundtrip jwt_encode jwt_decode key alg =
     (\<forall>e s t. t \<le> e \<longrightarrow>
        (\<exists>payload.
           jwt_decode (jwt_encode [''exp'' \<mapsto> JDatetime e, ''sub'' \<mapsto> JStr s] key alg)
             key [alg] t = Inr payload
           \<and> payload ''sub'' = Some (JStr s)))"

section \<open>An instance of the library parameters\<close>

text \<open>
  A small stand-in for the two libraries, used for the concrete examples only. A token is
  \<open>key.111...1.subject\<close> with the expiry written in unary; decoding checks the key,
  then the expiry against the clock. A hash is \<open>$salt$password\<close>; hashing a password
  with a NUL byte raises, and so does verifying a string that is not of this form, as
  \<open>CryptContext.verify\<close> of \<open>passlib\<close> does for a string it cannot identify
  (\<open>UnknownHashError\<close>, a \<open>ValueError\<close>).
\<close>

definition demo_encode :: jwt_encode where
  "demo_encode claims key alg =
     (case (claims ''exp'', claims ''sub'') of
        (Some (JDatetime e), Some (JStr s)) \<Rightarrow>
          key @ ''.'' @ replicate (nat e) (CHR ''1'') @ ''.'' @ s
      | _ \<Rightarrow> [])"

definition demo_decode :: jwt_decode where
  "demo_decode token key algs t =
     (if take (length key + 1) token \<noteq> key @ ''.'' then Inl JWTError
      else
        (let rest = drop (length key + 1) token;
             e = int (length (takeWhile (\<lambda>c. c = CHR ''1'') rest));
             body = drop 1 (dropWhile (\<lambda>c. c = CHR ''1'') rest)
         in if e < t then Inl ExpiredSignatureError
            else Inr [''exp'' \<mapsto> JInt e, ''sub'' \<mapsto> JStr body]))"

definition demo_hash :: "char \<Rightarrow> string \<Rightarrow> exn + string" where
  "demo_hash salt plain =
     (if CHR 0x00 \<in> set plain then Inl ValueError
      else Inr (CHR ''$'' # salt # CHR ''$'' # plain))"

definition demo_verify :: "string \<Rightarrow> string \<Rightarrow> exn + bool" where
  "demo_verify plain hashed =
     (case hashed of
        a # b # c # rest \<Rightarrow>
          if a = CHR ''$'' \<and> c = CHR ''$'' then Inr (rest = plain) else Inl ValueError
      | _ \<Rightarrow> Inl ValueError)"

definition demo_settings :: Settings where
  "demo_settings =
     \<lparr>SECRET_KEY = ''k'', ALGORITHM = ''HS256'', ACCESS_TOKEN_EXPIRE_MINUTES = 30\<rparr>"

text \<open>Two tables for the examples: one with an active user, one with an inactive one.\<close>

definition alice :: User where
  "alice = \<lparr>User.id' = 1, User.username = ''alice'', User.email = ''a@x.com'',
             User.password_hash = ''$s$secret1'', User.is_active = True,
             User.created_at = 7\<rparr>"

definition bob :: User where
  "bob = \<lparr>User.id' = 1, User.username = ''bob'', User.email = ''b@x.com'',
           User.password_hash = ''$s$secret1'', User.is_active = False,
           User.created_at = 7\<rparr>"

definition empty_session :: Session where
  "empty_session = \<lparr>rows = [], next_id = 1\<rparr>"

section \<open>Auxiliary facts\<close>

lemma find_snoc:
  "find P (xs @ [x])
     = (case find P xs of Some y \<Rightarrow> Some y | None \<Rightarrow> if P x then Some x else None)"
  by (induction xs) auto

lemma takeWhile_ones:
  "takeWhile (\<lambda>c. c = CHR ''1'') (replicate n (CHR ''1'') @ CHR ''.'' # s)
     = replicate n (CHR ''1'')"
  by (induction n) auto

lemma dropWhile_ones:
  "dropWhile (\<lambda>c. c = CHR ''1'') (replicate n (CHR ''1'') @ CHR ''.'' # s) = CHR ''.'' # s"
  by (induction n) auto

lemma demo_decode_encode:
  "t \<le> e \<Longrightarrow>
   demo_decode (demo_encode [''exp'' \<mapsto> JDatetime e, ''sub'' \<mapsto> JStr s] key alg) key [alg] t
     = Inr [''exp'' \<mapsto> JInt (int (nat e)), ''sub'' \<mapsto> JStr s]"
  by (auto simp: demo_encode_def demo_decode_def Let_def takeWhile_ones dropWhile_ones)

lemma demo_roundtrip: "jwt_roundtrip demo_encode demo_decode key alg"
  unfolding jwt_roundtrip_def by (auto simp: demo_decode_encode)

lemma demo_decode_bob:
  "demo_decode ''k.11111.bob'' (SECRET_KEY demo_settings) [ALGORITHM demo_settings] 3
     = Inr [''exp'' \<mapsto> JInt 5, ''sub'' \<mapsto> JStr ''bob'']"
  by (simp add: demo_decode_def demo_settings_def Let_def)

lemma demo_decode_empty_sub:
  "demo_decode ''k.11111.'' (SECRET_KEY demo_settings) [ALGORITHM demo_settings] 3
     = Inr [''exp'' \<mapsto> JInt 5, ''sub'' \<mapsto> JStr []]"
  by (simp add: demo_decode_def demo_settings_def Let_def)

lemma datetime_add_Inr: "datetime_add now d = Inr e \<Longrightarrow> e = now + d"
  by (auto simp: datetime_add_def split: if_splits)

lemma datetime_add_in_range:
  "datetime_min \<le> now + d \<Longrightarrow> now + d \<le> datetime_max \<Longrightarrow> datetime_add now d = Inr (now + d)"
  by (simp add: datetime_add_def)

lemma datetime_add_overflow:
  "datetime_max < now + d \<Longrightarrow> datetime_add now d = Inl OverflowError"
  by (simp add: datetime_add_def)

lemma issued_token:
  "d \<noteq> 0 \<Longrightarrow>
   create_access_token jwt_encode str settings now s (Some d)
     = (case datetime_add now d of
          Inl e \<Rightarrow> Inl e
        | Inr expire \<Rightarrow>
            Inr (jwt_encode [''exp'' \<mapsto> JDatetime expire, ''sub'' \<mapsto> JStr (str s)]
                   (SECRET_KEY settings) (ALGORITHM settings)))"
  by (simp add: create_access_token_def Let_def split: sum.splits)

lemma zero_ttl_is_default:
  "create_access_token jwt_encode str settings now s (Some 0)
     = create_access_token jwt_encode str settings now s None"
  by (simp add: create_access_token_def)

lemma default_token:
  assumes "timedelta_minutes (ACCESS_TOKEN_EXPIRE_MINUTES settings) = Inr lifetime"
    and "datetime_add now lifetime = Inr expire"
  shows "create_access_token jwt_encode str settings now s None
     = Inr (jwt_encode [''exp'' \<mapsto> JDatetime expire, ''sub'' \<mapsto> JStr (str s)]
              (SECRET_KEY settings) (ALGORITHM settings))"
  using assms by (simp add: create_access_token_def)

lemma login_token:
  assumes "timedelta_minutes (ACCESS_TOKEN_EXPIRE_MINUTES settings) = Inr lifetime"
    and "datetime_add now lifetime = Inr expire"
  shows "create_access_token jwt_encode str settings now s (Some lifetime)
     = Inr (jwt_encode [''exp'' \<mapsto> JDatetime expire, ''sub'' \<mapsto> JStr (str s)]
              (SECRET_KEY settings) (ALGORITHM settings))"
  using assms by (simp add: create_access_token_def)

lemma demo_lifetime:
  "timedelta_minutes (ACCESS_TOKEN_EXPIRE_MINUTES demo_settings) = Inr 1800000000"
  by (simp add: timedelta_minutes_def demo_settings_def timedelta_min_def timedelta_max_def)

lemma decoded_subject_lookup:
  assumes "jwt_decode token (SECRET_KEY settings) [ALGORITHM settings] t = Inr payload"
    and "dict_get payload ''sub'' = JStr s"
  shows "get_current_user jwt_decode settings t session token
           = (case get_user_by_username session s of
                None \<Rightarrow> Inl credentials_exception
              | Some user \<Rightarrow> Inr user)"
  using assms by (simp add: get_current_user_def)

lemma register_success:
  assumes "register pwd_hash salt now session user_in = (session', Inr created)"
  shows "get_user_by_username session (UserBase.username user_in) = None"
    and "get_user_by_email session (UserBase.email user_in) = None"
    and "\<exists>h. rows session' = rows session @
           [\<lparr>User.id' = next_id session, User.username = UserBase.username user_in,
             User.email = UserBase.email user_in, User.password_hash = h,
             User.is_active = True, User.created_at = now\<rparr>]"
    and "created = \<lparr>UserBase.email = UserBase.email user_in,
                    UserBase.username = UserBase.username user_in,
                    UserBase.is_active = True,
                    UserRead.id' = next_id session, UserRead.created_at = now\<rparr>"
  using assms
  by (auto simp: register_def create_user_def Let_def UserRead_from_def
      split: if_splits sum.splits)

lemma register_alice:
  "register demo_hash (CHR ''s'') 7 empty_session
     \<lparr>UserBase.email = ''a@x.com'', UserBase.username = ''alice'',
      UserBase.is_active = False, UserCreate.password = ''secret1''\<rparr>
   = (\<lparr>rows = [alice], next_id = 2\<rparr>, Inr (UserRead_from alice))"
  by (simp add: register_def create_user_def Let_def UserRead_from_def empty_session_def
      get_user_by_username_def get_user_by_email_def get_password_hash_def demo_hash_def
      alice_def)

lemma login_returns_token_only_if:
  assumes "login_for_access_token jwt_encode pwd_verify settings now session form_data = Inr tok"
  shows "\<exists>user.
           get_user_by_username session (OAuth2PasswordRequestForm.username form_data)
             = Some user
           \<and> pwd_verify (OAuth2PasswordRequestForm.password form_data)
               (User.password_hash user) = Inr True
           \<and> User.is_active user"
    and "token_type tok = ''bearer''"
  using assms
  by (auto simp: login_for_access_token_def authenticate_user_def verify_password_def
      split: option.splits sum.splits if_splits)

lemma login_returns_token_if:
  assumes "get_user_by_username session (OAuth2PasswordRequestForm.username form_data)
             = Some user"
    and "pwd_verify (OAuth2PasswordRequestForm.password form_data) (User.password_hash user)
           = Inr True"
    and "User.is_active user"
    and "timedelta_minutes (ACCESS_TOKEN_EXPIRE_MINUTES settings) = Inr lifetime"
    and "datetime_add now lifetime = Inr expire"
  shows "login_for_access_token jwt_encode pwd_verify settings now session form_data
           = Inr \<lparr>access_token =
                    jwt_encode [''exp'' \<mapsto> JDatetime expire,
                                ''sub'' \<mapsto> JStr (User.username user)]
                      (SECRET_KEY settings) (ALGORITHM settings),
                  token_type = ''bearer''\<rparr>"
  using assms(1-4)
  by (simp add: login_for_access_token_def authenticate_user_def verify_password_def
      login_token [OF assms(4,5)])

section \<open>Issuing a token and verifying it at once\<close>

text \<open>
  C1, as amended. Let the token library round-trip claim sets until they expire, and let
  \<open>ttl\<close> be positive. When \<open>now + ttl\<close> is still a \<open>datetime\<close> (not past the year 9999),
  \<open>create_access_token\<close> issues a token; presented at any time \<open>t\<close> up to
  \<open>now + ttl\<close> (so also at \<open>now\<close> itself), the token decodes to a claim set whose
  \<open>sub\<close> is \<open>str s\<close>, and \<open>get_current_user\<close> goes on to the store lookup with that
  name: it returns the row found, and \<open>credentials_exception\<close> when there is none. When
  \<open>now + ttl\<close> is past the last \<open>datetime\<close>, \<open>create_access_token\<close> raises
  \<open>OverflowError\<close> and issues no token.
\<close>

theorem issue_then_verify:
  assumes "0 < ttl" and "datetime_min \<le> now"
  shows "(now + ttl \<le> datetime_max \<and> t \<le> now + ttl
          \<and> jwt_roundtrip jwt_encode jwt_decode (SECRET_KEY settings) (ALGORITHM settings)
          \<longrightarrow> (\<exists>token.
                 create_access_token jwt_encode str settings now s (Some ttl) = Inr token
                 \<and> (\<exists>payload.
                       jwt_decode token (SECRET_KEY settings) [ALGORITHM settings] t = Inr payload
                       \<and> dict_get payload ''sub'' = JStr (str s))
                 \<and> get_current_user jwt_decode settings t session token
                     = (case get_user_by_username session (str s) of
                          None \<Rightarrow> Inl credentials_exception
                        | Some user \<Rightarrow> Inr user)))
       \<and> (datetime_max < now + ttl
          \<longrightarrow> create_access_token jwt_encode str settings now s (Some ttl)
                = Inl OverflowError)"
proof (intro conjI impI)
  assume "datetime_max < now + ttl"
  with assms(1) show "create_access_token jwt_encode str settings now s (Some ttl)
                = Inl OverflowError"
    by (simp add: issued_token datetime_add_overflow)
next
  assume h: "now + ttl \<le> datetime_max \<and> t \<le> now + ttl
          \<and> jwt_roundtrip jwt_encode jwt_decode (SECRET_KEY settings) (ALGORITHM settings)"
  let ?token = "jwt_encode [''exp'' \<mapsto> JDatetime (now + ttl), ''sub'' \<mapsto> JStr (str s)]
          (SECRET_KEY settings) (ALGORITHM settings)"
  from assms h have "datetime_add now ttl = Inr (now + ttl)"
    by (simp add: datetime_add_in_range)
  with assms(1) have tok: "create_access_token jwt_encode str settings now s (Some ttl)
      = Inr ?token"
    by (simp add: issued_token)
  from h obtain payload where
    dec: "jwt_decode ?token (SECRET_KEY settings) [ALGORITHM settings] t = Inr payload"
    and sub: "payload ''sub'' = Some (JStr (str s))"
    unfolding jwt_roundtrip_def by blast
  have get: "dict_get payload ''sub'' = JStr (str s)"
    by (simp add: dict_get_def sub)
  have "get_current_user jwt_decode settings t session ?token
        = (case get_user_by_username session (str s) of
             None \<Rightarrow> Inl credentials_exception
           | Some user \<Rightarrow> Inr user)"
    using dec get by (rule decoded_subject_lookup)
  with tok dec get
  show "\<exists>token.
          create_access_token jwt_encode str settings now s (Some ttl) = Inr token
          \<and> (\<exists>payload.
                jwt_decode token (SECRET_KEY settings) [ALGORITHM settings] t = Inr payload
                \<and> dict_get payload ''sub'' = JStr (str s))
          \<and> get_current_user jwt_decode settings t session token
              = (case get_user_by_username session (str s) of
                   None \<Rightarrow> Inl credentials_exception
                 | Some user \<Rightarrow> Inr user)"
    by blast
qed

theorem issue_then_verify_witness:
  "(0::int) < 5 \<and> datetime_min \<le> 7 \<and> (7::int) + 5 \<le> datetime_max
   \<and> jwt_roundtrip demo_encode demo_decode (SECRET_KEY demo_settings) (ALGORITHM demo_settings)
   \<and> (\<exists>token.
         create_access_token demo_encode (\<lambda>s. s) demo_settings 7 ''alice'' (Some 5) = Inr token
         \<and> get_current_user demo_decode demo_settings 7 \<lparr>rows = [alice], next_id = 2\<rparr> token
           = Inr alice)"
proof -
  have ttl: "(0::int) < 5" and lo: "datetime_min \<le> 7" and hi: "(7::int) + 5 \<le> datetime_max"
    and t: "(7::int) \<le> 7 + 5"
    by (simp_all add: datetime_min_def datetime_max_def)
  note r = demo_roundtrip [of "SECRET_KEY demo_settings" "ALGORITHM demo_settings"]
  have u: "get_user_by_username \<lparr>rows = [alice], next_id = 2\<rparr> ''alice'' = Some alice"
    by (simp add: get_user_by_username_def alice_def)
  from issue_then_verify [where jwt_encode = demo_encode and jwt_decode = demo_decode
      and settings = demo_settings and str = "\<lambda>s. s" and s = "''alice''" and now = 7
      and t = 7 and ttl = 5 and session = "\<lparr>rows = [alice], next_id = 2\<rparr>", OF ttl lo]
    hi t r u
  have "\<exists>token.
         create_access_token demo_encode (\<lambda>s. s) demo_settings 7 ''alice'' (Some 5) = Inr token
         \<and> get_current_user demo_decode demo_settings 7 \<lparr>rows = [alice], next_id = 2\<rparr> token
           = Inr alice"
    by auto
  with ttl lo hi r show ?thesis by blast
qed

text \<open>
  C1 as stated fails for a large \<open>ttl\<close>: on 4 November 2025, a \<open>ttl\<close> of 3000000 days
  (a \<open>timedelta\<close> Python accepts) puts the expiry past the year 9999, and
  \<open>create_access_token\<close> raises instead of issuing a token.
\<close>

theorem huge_ttl_counterexample:
  "(0::int) < 259200000000000000
   \<and> (259200000000000000::int) \<le> timedelta_max
   \<and> datetime_min \<le> 1762214400000000 \<and> (1762214400000000::int) \<le> datetime_max
   \<and> create_access_token demo_encode (\<lambda>s. s) demo_settings 1762214400000000 ''alice''
       (Some 259200000000000000)
     = Inl OverflowError"
  by (simp add: create_access_token_def datetime_add_def timedelta_minutes_def
      datetime_min_def datetime_max_def timedelta_min_def timedelta_max_def demo_settings_def)

section \<open>A malformed stored hash\<close>

text \<open>
  C3, as amended. \<open>verify_password\<close> returns what \<open>pwd_context.verify\<close> returns and
  raises what it raises; the repository adds no handler. When the library raises on the
  stored hash of the user found, \<open>authenticate_user\<close> and the login handler raise the
  same exception.
\<close>

theorem verify_password_passthrough:
  "verify_password pwd_verify plain_password hashed_password
     = pwd_verify plain_password hashed_password
   \<and> (\<forall>user e.
        get_user_by_username session (OAuth2PasswordRequestForm.username form_data) = Some user
        \<and> pwd_verify (OAuth2PasswordRequestForm.password form_data) (User.password_hash user)
            = Inl e
        \<longrightarrow> authenticate_user pwd_verify session
              (OAuth2PasswordRequestForm.username form_data)
              (OAuth2PasswordRequestForm.password form_data) = Inl e
          \<and> login_for_access_token jwt_encode pwd_verify settings now session form_data
              = Inl e)"
  by (simp add: verify_password_def authenticate_user_def login_for_access_token_def)

theorem verify_password_passthrough_witness:
  "get_user_by_username \<lparr>rows = [alice\<lparr>User.password_hash := ''secret1''\<rparr>], next_id = 2\<rparr>
       ''alice''
     = Some (alice\<lparr>User.password_hash := ''secret1''\<rparr>)
   \<and> demo_verify ''secret1'' ''secret1'' = Inl ValueError
   \<and> login_for_access_token demo_encode demo_verify demo_settings 9
       \<lparr>rows = [alice\<lparr>User.password_hash := ''secret1''\<rparr>], next_id = 2\<rparr>
       \<lparr>OAuth2PasswordRequestForm.username = ''alice'',
        OAuth2PasswordRequestForm.password = ''secret1''\<rparr>
     = Inl ValueError"
proof -
  let ?u = "alice\<lparr>User.password_hash := ''secret1''\<rparr>"
  let ?s = "\<lparr>rows = [?u], next_id = 2\<rparr>"
  let ?f = "\<lparr>OAuth2PasswordRequestForm.username = ''alice'',
        OAuth2PasswordRequestForm.password = ''secret1''\<rparr>"
  have u: "get_user_by_username ?s (OAuth2PasswordRequestForm.username ?f) = Some ?u"
    by (simp add: get_user_by_username_def alice_def)
  have v: "demo_verify (OAuth2PasswordRequestForm.password ?f) (User.password_hash ?u)
             = Inl ValueError"
    by (simp add: demo_verify_def)
  from verify_password_passthrough [where pwd_verify = demo_verify and session = ?s
      and form_data = ?f and jwt_encode = demo_encode and settings = demo_settings
      and now = 9] u v
  show ?thesis by simp
qed

text \<open>
  C3 as stated fails: for a stored string that is not a hash, \<open>verify_password\<close> raises
  instead of returning \<open>False\<close>.
\<close>

theorem malformed_hash_counterexample:
  "verify_password demo_verify ''secret1'' ''not-a-hash'' = Inl ValueError"
  by (simp add: verify_password_def demo_verify_def)

section \<open>The subject claim\<close>

text \<open>
  C4, as amended. For a token that decodes: when \<open>sub\<close> is absent, \<open>None\<close> or not a
  string, \<open>get_current_user\<close> raises \<open>credentials_exception\<close>; when \<open>sub\<close> is a string,
  the empty one included, it is looked up as a username, and the outcome is that of the
  lookup.
\<close>

theorem sub_claim_check:
  assumes "jwt_decode token (SECRET_KEY settings) [ALGORITHM settings] t = Inr payload"
  shows "((\<forall>s. dict_get payload ''sub'' \<noteq> JStr s)
            \<longrightarrow> get_current_user jwt_decode settings t session token
                = Inl credentials_exception)
       \<and> (\<forall>s. dict_get payload ''sub'' = JStr s
            \<longrightarrow> get_current_user jwt_decode settings t session token
                = (case get_user_by_username session s of
                     None \<Rightarrow> Inl credentials_exception
                   | Some user \<Rightarrow> Inr user))"
proof (intro conjI impI allI)
  assume "\<forall>s. dict_get payload ''sub'' \<noteq> JStr s"
  then show "get_current_user jwt_decode settings t session token = Inl credentials_exception"
    using assms by (cases "dict_get payload ''sub''") (simp_all add: get_current_user_def)
next
  fix s assume "dict_get payload ''sub'' = JStr s"
  with assms show "get_current_user jwt_decode settings t session token
                = (case get_user_by_username session s of
                     None \<Rightarrow> Inl credentials_exception
                   | Some user \<Rightarrow> Inr user)"
    by (rule decoded_subject_lookup)
qed

theorem sub_claim_check_witness:
  "get_current_user (\<lambda>token key algs t. Inr [''exp'' \<mapsto> JInt 5]) demo_settings 3
       \<lparr>rows = [alice], next_id = 2\<rparr> ''t''
     = Inl credentials_exception
   \<and> get_current_user demo_decode demo_settings 3 \<lparr>rows = [alice], next_id = 2\<rparr> ''k.11111.''
     = Inl credentials_exception"
proof -
  let ?s = "\<lparr>rows = [alice], next_id = 2\<rparr>"
  have d1: "(\<lambda>token key algs t. Inr [''exp'' \<mapsto> JInt 5]) ''t'' (SECRET_KEY demo_settings)
              [ALGORITHM demo_settings] (3::int)
            = (Inr [''exp'' \<mapsto> JInt 5] :: jwt_error + pydict)"
    by simp
  have a1: "\<forall>s. dict_get [''exp'' \<mapsto> JInt 5] ''sub'' \<noteq> JStr s"
    by (simp add: dict_get_def)
  have a2: "dict_get [''exp'' \<mapsto> JInt 5, ''sub'' \<mapsto> JStr []] ''sub'' = JStr []"
    by (simp add: dict_get_def)
  from sub_claim_check [where jwt_decode = "\<lambda>token key algs t. Inr [''exp'' \<mapsto> JInt 5]"
      and settings = demo_settings and token = "''t''" and t = 3 and session = ?s, OF d1] a1
  have 1: "get_current_user (\<lambda>token key algs t. Inr [''exp'' \<mapsto> JInt 5]) demo_settings 3
             ?s ''t'' = Inl credentials_exception"
    by blast
  from sub_claim_check [where jwt_decode = demo_decode and settings = demo_settings
      and token = "''k.11111.''" and t = 3 and session = ?s, OF demo_decode_empty_sub] a2
  have "get_current_user demo_decode demo_settings 3 ?s ''k.11111.''
     = (case get_user_by_username ?s [] of
          None \<Rightarrow> Inl credentials_exception
        | Some user \<Rightarrow> Inr user)"
    by blast
  then have 2: "get_current_user demo_decode demo_settings 3 ?s ''k.11111.''
                  = Inl credentials_exception"
    by (simp add: get_user_by_username_def alice_def)
  from 1 2 show ?thesis by simp
qed

text \<open>
  C4 as stated fails for the empty string. Registration accepts an empty username; a
  token whose \<open>sub\<close> is the empty string then resolves to that user.
\<close>

theorem empty_sub_counterexample:
  "fst (register demo_hash (CHR ''s'') 7 empty_session
          \<lparr>UserBase.email = ''a@x.com'', UserBase.username = [],
           UserBase.is_active = True, UserCreate.password = ''secret1''\<rparr>)
     = \<lparr>rows = [alice\<lparr>User.username := []\<rparr>], next_id = 2\<rparr>
   \<and> create_access_token demo_encode (\<lambda>s. s) demo_settings 2 [] (Some 3) = Inr ''k.11111.''
   \<and> demo_decode ''k.11111.'' ''k'' [''HS256''] 3
     = Inr [''exp'' \<mapsto> JInt 5, ''sub'' \<mapsto> JStr []]
   \<and> get_current_user demo_decode demo_settings 3
       \<lparr>rows = [alice\<lparr>User.username := []\<rparr>], next_id = 2\<rparr> ''k.11111.''
     = Inr (alice\<lparr>User.username := []\<rparr>)"
  by (simp add: register_def create_user_def get_password_hash_def demo_hash_def
      empty_session_def get_user_by_email_def alice_def
      create_access_token_def datetime_add_def timedelta_minutes_def datetime_min_def
      datetime_max_def timedelta_min_def timedelta_max_def
      demo_encode_def demo_settings_def eval_nat_numeral
      demo_decode_def get_current_user_def dict_get_def get_user_by_username_def Let_def)

section \<open>A zero time-to-live\<close>

text \<open>
  C5. The code does not do what the claim says for \<open>ttl = 0\<close>: a zero \<open>timedelta\<close> is
  falsy, so \<open>create_access_token\<close> gives the token the default lifetime. With a
  configured lifetime that gives a \<open>datetime\<close> and a token library that round-trips claim
  sets until they expire, the token issued at \<open>now\<close> with \<open>ttl = 0\<close> is accepted at
  every time up to \<open>now\<close> plus the default lifetime.
\<close>

theorem zero_ttl_token_accepted:
  assumes "jwt_roundtrip jwt_encode jwt_decode (SECRET_KEY settings) (ALGORITHM settings)"
    and "timedelta_minutes (ACCESS_TOKEN_EXPIRE_MINUTES settings) = Inr lifetime"
    and "datetime_add now lifetime = Inr expire"
    and "t \<le> now + lifetime"
    and "get_user_by_username session (str s) = Some user"
  shows "\<exists>token.
           create_access_token jwt_encode str settings now s (Some 0) = Inr token
           \<and> get_current_user jwt_decode settings t session token = Inr user"
proof -
  let ?token = "jwt_encode [''exp'' \<mapsto> JDatetime expire, ''sub'' \<mapsto> JStr (str s)]
            (SECRET_KEY settings) (ALGORITHM settings)"
  from assms(3) have e: "expire = now + lifetime" by (rule datetime_add_Inr)
  have tok: "create_access_token jwt_encode str settings now s (Some 0) = Inr ?token"
    by (simp add: zero_ttl_is_default default_token [OF assms(2,3)])
  from assms(1,4) e obtain payload where
    dec: "jwt_decode ?token (SECRET_KEY settings) [ALGORITHM settings] t = Inr payload"
    and sub: "payload ''sub'' = Some (JStr (str s))"
    unfolding jwt_roundtrip_def by blast
  have get: "dict_get payload ''sub'' = JStr (str s)"
    by (simp add: dict_get_def sub)
  have "get_current_user jwt_decode settings t session ?token
        = (case get_user_by_username session (str s) of
             None \<Rightarrow> Inl credentials_exception
           | Some user \<Rightarrow> Inr user)"
    using dec get by (rule decoded_subject_lookup)
  with assms(5) tok show ?thesis by simp
qed

theorem zero_ttl_token_accepted_witness:
  "timedelta_minutes (ACCESS_TOKEN_EXPIRE_MINUTES demo_settings) = Inr 1800000000
   \<and> datetime_add 7 1800000000 = Inr 1800000007
   \<and> (\<exists>token.
         create_access_token demo_encode (\<lambda>s. s) demo_settings 7 ''alice'' (Some 0) = Inr token
         \<and> get_current_user demo_decode demo_settings (7 + 1000000)
             \<lparr>rows = [alice], next_id = 2\<rparr> token
           = Inr alice)"
proof -
  have a: "datetime_add 7 1800000000 = Inr 1800000007"
    by (simp add: datetime_add_def datetime_min_def datetime_max_def)
  have t: "(7 + 1000000 :: int) \<le> 7 + 1800000000" by simp
  have u: "get_user_by_username \<lparr>rows = [alice], next_id = 2\<rparr> ((\<lambda>s. s) ''alice'')
             = Some alice"
    by (simp add: get_user_by_username_def alice_def)
  from zero_ttl_token_accepted [where jwt_encode = demo_encode and jwt_decode = demo_decode
        and settings = demo_settings and str = "\<lambda>s. s" and s = "''alice''" and now = 7
        and t = "7 + 1000000", OF demo_roundtrip demo_lifetime a t u]
    demo_lifetime a
  show ?thesis by simp
qed

section \<open>Registering a name twice\<close>

text \<open>
  C7. After a registration that succeeded, any further registration with the same
  username or the same email is answered 400 \<open>User already exists.\<close> and leaves the
  table as it was; the table holds exactly one row with that username. The response of
  the successful registration is the \<open>UserRead\<close> view of the new row: email, username,
  the active flag, identifier and creation time, and neither the password nor its hash.
\<close>

theorem register_twice:
  assumes "register pwd_hash salt now session user_in = (session', Inr created)"
    and "UserBase.username again = UserBase.username user_in
         \<or> UserBase.email again = UserBase.email user_in"
  shows "register pwd_hash2 salt2 now2 session' again
           = (session', Inl (HTTPException 400 ''User already exists.'' []))
       \<and> length (filter (\<lambda>u. User.username u = UserBase.username user_in) (rows session')) = 1
       \<and> created = \<lparr>UserBase.email = UserBase.email user_in,
                     UserBase.username = UserBase.username user_in,
                     UserBase.is_active = True,
                     UserRead.id' = next_id session, UserRead.created_at = now\<rparr>"
proof -
  note s = register_success [OF assms(1)]
  from s(3) obtain h where rows': "rows session' = rows session @
           [\<lparr>User.id' = next_id session, User.username = UserBase.username user_in,
             User.email = UserBase.email user_in, User.password_hash = h,
             User.is_active = True, User.created_at = now\<rparr>]"
    by blast
  have taken: "get_user_by_username session' (UserBase.username again) \<noteq> None
         \<or> get_user_by_email session' (UserBase.email again) \<noteq> None"
    using assms(2) s(1,2) rows'
    by (auto simp: get_user_by_username_def get_user_by_email_def find_snoc
        split: option.splits)
  have one: "length (filter (\<lambda>u. User.username u = UserBase.username user_in) (rows session'))
               = 1"
  proof -
    have "filter (\<lambda>u. User.username u = UserBase.username user_in) (rows session) = []"
      using s(1) by (auto simp: get_user_by_username_def find_None_iff filter_empty_conv)
    then show ?thesis using rows' by simp
  qed
  from taken have "register pwd_hash2 salt2 now2 session' again
           = (session', Inl (HTTPException 400 ''User already exists.'' []))"
    by (auto simp: register_def)
  with one s(4) show ?thesis by blast
qed

theorem register_twice_witness:
  "register demo_hash (CHR ''s'') 7 empty_session
      \<lparr>UserBase.email = ''a@x.com'', UserBase.username = ''alice'',
       UserBase.is_active = False, UserCreate.password = ''secret1''\<rparr>
     = (\<lparr>rows = [alice], next_id = 2\<rparr>, Inr (UserRead_from alice))
   \<and> register demo_hash (CHR ''t'') 9 \<lparr>rows = [alice], next_id = 2\<rparr>
        \<lparr>UserBase.email = ''other@x.com'', UserBase.username = ''alice'',
         UserBase.is_active = True, UserCreate.password = ''secret2''\<rparr>
     = (\<lparr>rows = [alice], next_id = 2\<rparr>, Inl (HTTPException 400 ''User already exists.'' []))
   \<and> register demo_hash (CHR ''t'') 9 \<lparr>rows = [alice], next_id = 2\<rparr>
        \<lparr>UserBase.email = ''a@x.com'', UserBase.username = ''alice2'',
         UserBase.is_active = True, UserCreate.password = ''secret2''\<rparr>
     = (\<lparr>rows = [alice], next_id = 2\<rparr>, Inl (HTTPException 400 ''User already exists.'' []))"
proof -
  let ?uc = "\<lparr>UserBase.email = ''a@x.com'', UserBase.username = ''alice'',
       UserBase.is_active = False, UserCreate.password = ''secret1''\<rparr>"
  let ?name = "\<lparr>UserBase.email = ''other@x.com'', UserBase.username = ''alice'',
         UserBase.is_active = True, UserCreate.password = ''secret2''\<rparr>"
  let ?mail = "\<lparr>UserBase.email = ''a@x.com'', UserBase.username = ''alice2'',
         UserBase.is_active = True, UserCreate.password = ''secret2''\<rparr>"
  have n: "UserBase.username ?name = UserBase.username ?uc
         \<or> UserBase.email ?name = UserBase.email ?uc"
    and m: "UserBase.username ?mail = UserBase.username ?uc
         \<or> UserBase.email ?mail = UserBase.email ?uc"
    by simp_all
  from register_twice [OF register_alice n, of demo_hash "CHR ''t''" 9]
    register_twice [OF register_alice m, of demo_hash "CHR ''t''" 9] register_alice
  show ?thesis by simp
qed

section \<open>A principal that is gone, and one that is deactivated\<close>

text \<open>
  C8, as amended. For a token that decodes to a subject: when the store holds no row
  with that username (the principal was deleted), \<open>get_current_user\<close> raises
  \<open>credentials_exception\<close>, the very exception it raises for a token that does not
  decode; when the store holds a row, that row is returned. The \<open>is_active\<close> flag of
  the row is not read.
\<close>

theorem missing_principal_unauthorized:
  assumes "jwt_decode token (SECRET_KEY settings) [ALGORITHM settings] t = Inr payload"
    and "payload ''sub'' = Some (JStr name)"
  shows "(get_user_by_username session name = None
            \<longrightarrow> get_current_user jwt_decode settings t session token
                = Inl credentials_exception)
       \<and> (\<forall>user. get_user_by_username session name = Some user
            \<longrightarrow> get_current_user jwt_decode settings t session token = Inr user)
       \<and> (\<forall>token' e.
            jwt_decode token' (SECRET_KEY settings) [ALGORITHM settings] t = Inl e
            \<longrightarrow> get_current_user jwt_decode settings t session token'
                = Inl credentials_exception)"
  using assms by (simp add: get_current_user_def dict_get_def)

theorem missing_principal_unauthorized_witness:
  "demo_decode ''k.11111.bob'' ''k'' [''HS256''] 3
     = Inr [''exp'' \<mapsto> JInt 5, ''sub'' \<mapsto> JStr ''bob'']
   \<and> get_user_by_username \<lparr>rows = [alice], next_id = 2\<rparr> ''bob'' = None
   \<and> get_current_user demo_decode demo_settings 3 \<lparr>rows = [alice], next_id = 2\<rparr>
       ''k.11111.bob''
     = Inl credentials_exception
   \<and> demo_decode ''x.11111.bob'' ''k'' [''HS256''] 3 = Inl JWTError
   \<and> get_current_user demo_decode demo_settings 3 \<lparr>rows = [alice], next_id = 2\<rparr>
       ''x.11111.bob''
     = Inl credentials_exception"
proof -
  have s: "[''exp'' \<mapsto> JInt 5, ''sub'' \<mapsto> JStr ''bob''] ''sub'' = Some (JStr ''bob'')"
    by simp
  have n: "get_user_by_username \<lparr>rows = [alice], next_id = 2\<rparr> ''bob'' = None"
    by (simp add: get_user_by_username_def alice_def)
  have x: "demo_decode ''x.11111.bob'' (SECRET_KEY demo_settings) [ALGORITHM demo_settings] 3
             = Inl JWTError"
    by (simp add: demo_decode_def demo_settings_def)
  from missing_principal_unauthorized [where jwt_decode = demo_decode
      and settings = demo_settings and token = "''k.11111.bob''" and t = 3
      and name = "''bob''" and payload = "[''exp'' \<mapsto> JInt 5, ''sub'' \<mapsto> JStr ''bob'']"
      and session = "\<lparr>rows = [alice], next_id = 2\<rparr>", OF demo_decode_bob s]
    n x demo_decode_bob
  show ?thesis by (simp add: demo_settings_def)
qed

text \<open>
  C8 as stated fails for a deactivated principal: the row is still in the store, and the
  unexpired token resolves to it.
\<close>

theorem deactivated_principal_counterexample:
  "demo_decode ''k.11111.bob'' ''k'' [''HS256''] 3
     = Inr [''exp'' \<mapsto> JInt 5, ''sub'' \<mapsto> JStr ''bob'']
   \<and> User.is_active bob = False
   \<and> get_current_user demo_decode demo_settings 3 \<lparr>rows = [bob], next_id = 2\<rparr>
       ''k.11111.bob''
     = Inr bob"
  by (simp add: demo_settings_def demo_decode_def get_current_user_def dict_get_def
      get_user_by_username_def Let_def bob_def)

section \<open>Login\<close>

text \<open>
  C9, as amended. The login handler returns a token only when the username is found, the
  password verifies against the stored hash and the account is active, and then always,
  provided the configured token lifetime gives a \<open>datetime\<close>; the token type is
  \<open>bearer\<close>. An unknown username and a password that does not verify are answered 401
  \<open>Incorrect username or password\<close>; an inactive account with the right password is
  answered 400 \<open>Inactive user\<close>.
\<close>

theorem login_outcomes:
  "((\<exists>tok. login_for_access_token jwt_encode pwd_verify settings now session form_data
             = Inr tok)
      \<longrightarrow> (\<exists>user.
            get_user_by_username session (OAuth2PasswordRequestForm.username form_data)
              = Some user
            \<and> pwd_verify (OAuth2PasswordRequestForm.password form_data)
                (User.password_hash user) = Inr True
            \<and> User.is_active user))
   \<and> ((\<exists>lifetime expire.
          timedelta_minutes (ACCESS_TOKEN_EXPIRE_MINUTES settings) = Inr lifetime
          \<and> datetime_add now lifetime = Inr expire)
        \<longrightarrow> ((\<exists>tok. login_for_access_token jwt_encode pwd_verify settings now session
                       form_data = Inr tok)
              \<longleftrightarrow> (\<exists>user.
                    get_user_by_username session
                      (OAuth2PasswordRequestForm.username form_data) = Some user
                    \<and> pwd_verify (OAuth2PasswordRequestForm.password form_data)
                        (User.password_hash user) = Inr True
                    \<and> User.is_active user)))
   \<and> (\<forall>tok. login_for_access_token jwt_encode pwd_verify settings now session form_data
              = Inr tok
         \<longrightarrow> token_type tok = ''bearer'')
   \<and> (get_user_by_username session (OAuth2PasswordRequestForm.username form_data) = None
         \<longrightarrow> login_for_access_token jwt_encode pwd_verify settings now session form_data
              = Inl (HTTPException 401 ''Incorrect username or password''
                       [(''WWW-Authenticate'', ''Bearer'')]))
   \<and> (\<forall>user.
         get_user_by_username session (OAuth2PasswordRequestForm.username form_data)
           = Some user
         \<and> pwd_verify (OAuth2PasswordRequestForm.password form_data)
             (User.password_hash user) = Inr False
         \<longrightarrow> login_for_access_token jwt_encode pwd_verify settings now session form_data
              = Inl (HTTPException 401 ''Incorrect username or password''
                       [(''WWW-Authenticate'', ''Bearer'')]))
   \<and> (\<forall>user.
         get_user_by_username session (OAuth2PasswordRequestForm.username form_data)
           = Some user
         \<and> pwd_verify (OAuth2PasswordRequestForm.password form_data)
             (User.password_hash user) = Inr True
         \<and> \<not> User.is_active user
         \<longrightarrow> login_for_access_token jwt_encode pwd_verify settings now session form_data
              = Inl (HTTPException 400 ''Inactive user'' []))"
proof (intro conjI)
  show "(\<exists>tok. login_for_access_token jwt_encode pwd_verify settings now session form_data
             = Inr tok)
      \<longrightarrow> (\<exists>user.
            get_user_by_username session (OAuth2PasswordRequestForm.username form_data)
              = Some user
            \<and> pwd_verify (OAuth2PasswordRequestForm.password form_data)
                (User.password_hash user) = Inr True
            \<and> User.is_active user)"
    using login_returns_token_only_if(1) by blast
  show "(\<exists>lifetime expire.
          timedelta_minutes (ACCESS_TOKEN_EXPIRE_MINUTES settings) = Inr lifetime
          \<and> datetime_add now lifetime = Inr expire)
        \<longrightarrow> ((\<exists>tok. login_for_access_token jwt_encode pwd_verify settings now session
                       form_data = Inr tok)
              \<longleftrightarrow> (\<exists>user.
                    get_user_by_username session
                      (OAuth2PasswordRequestForm.username form_data) = Some user
                    \<and> pwd_verify (OAuth2PasswordRequestForm.password form_data)
                        (User.password_hash user) = Inr True
                    \<and> User.is_active user))"
    using login_returns_token_only_if(1) login_returns_token_if by blast
  show "\<forall>tok. login_for_access_token jwt_encode pwd_verify settings now session form_data
              = Inr tok
         \<longrightarrow> token_type tok = ''bearer''"
    using login_returns_token_only_if(2) by blast
qed (simp_all add: login_for_access_token_def authenticate_user_def verify_password_def)

theorem login_outcomes_witness:
  "(\<exists>tok. login_for_access_token demo_encode demo_verify demo_settings 9
            \<lparr>rows = [alice], next_id = 2\<rparr>
            \<lparr>OAuth2PasswordRequestForm.username = ''alice'',
             OAuth2PasswordRequestForm.password = ''secret1''\<rparr> = Inr tok
      \<and> token_type tok = ''bearer'')
   \<and> login_for_access_token demo_encode demo_verify demo_settings 9
       \<lparr>rows = [alice], next_id = 2\<rparr>
       \<lparr>OAuth2PasswordRequestForm.username = ''alice'',
        OAuth2PasswordRequestForm.password = ''wrong''\<rparr>
     = Inl (HTTPException 401 ''Incorrect username or password''
              [(''WWW-Authenticate'', ''Bearer'')])"
proof -
  let ?s = "\<lparr>rows = [alice], next_id = 2\<rparr>"
  let ?good = "\<lparr>OAuth2PasswordRequestForm.username = ''alice'',
        OAuth2PasswordRequestForm.password = ''secret1''\<rparr>"
  let ?bad = "\<lparr>OAuth2PasswordRequestForm.username = ''alice'',
        OAuth2PasswordRequestForm.password = ''wrong''\<rparr>"
  have ug: "get_user_by_username ?s (OAuth2PasswordRequestForm.username ?good) = Some alice"
    and ub: "get_user_by_username ?s (OAuth2PasswordRequestForm.username ?bad) = Some alice"
    by (simp_all add: get_user_by_username_def alice_def)
  have vg: "demo_verify (OAuth2PasswordRequestForm.password ?good) (User.password_hash alice)
              = Inr True"
    and vb: "demo_verify (OAuth2PasswordRequestForm.password ?bad) (User.password_hash alice)
              = Inr False"
    by (simp_all add: demo_verify_def alice_def)
  have act: "User.is_active alice" by (simp add: alice_def)
  have "datetime_add 9 1800000000 = Inr 1800000009"
    by (simp add: datetime_add_def datetime_min_def datetime_max_def)
  with demo_lifetime
  have cfg: "\<exists>lifetime expire.
          timedelta_minutes (ACCESS_TOKEN_EXPIRE_MINUTES demo_settings) = Inr lifetime
          \<and> datetime_add 9 lifetime = Inr expire"
    by blast
  note g = login_outcomes [where jwt_encode = demo_encode and pwd_verify = demo_verify
      and settings = demo_settings and now = 9 and session = ?s and form_data = ?good]
  note b = login_outcomes [where jwt_encode = demo_encode and pwd_verify = demo_verify
      and settings = demo_settings and now = 9 and session = ?s and form_data = ?bad]
  from g cfg ug vg act
  have "\<exists>tok. login_for_access_token demo_encode demo_verify demo_settings 9 ?s ?good = Inr tok"
    by blast
  then obtain tok
    where tok: "login_for_access_token demo_encode demo_verify demo_settings 9 ?s ?good = Inr tok"
    by blast
  with g have "token_type tok = ''bearer''" by blast
  moreover from b ub vb
  have "login_for_access_token demo_encode demo_verify demo_settings 9 ?s ?bad
     = Inl (HTTPException 401 ''Incorrect username or password''
              [(''WWW-Authenticate'', ''Bearer'')])"
    by blast
  ultimately show ?thesis using tok by blast
qed

text \<open>
  C9 as stated fails for an inactive account: the answer is 400 \<open>Inactive user\<close>, without
  the \<open>WWW-Authenticate\<close> header, and not the 401 given for bad credentials.
\<close>

theorem inactive_login_counterexample:
  "login_for_access_token demo_encode demo_verify demo_settings 9 \<lparr>rows = [bob], next_id = 2\<rparr>
     \<lparr>OAuth2PasswordRequestForm.username = ''bob'',
      OAuth2PasswordRequestForm.password = ''secret1''\<rparr>
   = Inl (HTTPException 400 ''Inactive user'' [])
   \<and> status_code (HTTPException 400 ''Inactive user'' []) \<noteq> 401"
  by (simp add: login_for_access_token_def authenticate_user_def verify_password_def
      demo_verify_def get_user_by_username_def bob_def)

section \<open>Registration stores active users\<close>

text \<open>
  C10. \<open>create_user\<close> does not read the \<open>is_active\<close> field of its input: changing that
  field changes nothing in the result. Whenever it returns a row, the row has
  \<open>is_active = True\<close> and is the one row appended to the table.
\<close>

theorem create_user_is_active:
  "create_user pwd_hash salt now session (user_create\<lparr>UserBase.is_active := b\<rparr>)
     = create_user pwd_hash salt now session user_create
   \<and> (\<forall>session' db_user.
        create_user pwd_hash salt now session user_create = (session', Inr db_user)
        \<longrightarrow> User.is_active db_user \<and> rows session' = rows session @ [db_user])"
  by (auto simp: create_user_def Let_def split: if_splits sum.splits)

theorem create_user_is_active_witness:
  "UserCreate_valid
     \<lparr>UserBase.email = ''a@x.com'', UserBase.username = ''alice'',
      UserBase.is_active = False, UserCreate.password = ''secret1''\<rparr>
   \<and> create_user demo_hash (CHR ''s'') 7 empty_session
       \<lparr>UserBase.email = ''a@x.com'', UserBase.username = ''alice'',
        UserBase.is_active = False, UserCreate.password = ''secret1''\<rparr>
     = (\<lparr>rows = [alice], next_id = 2\<rparr>, Inr alice)
   \<and> User.is_active alice"
proof -
  let ?uc = "\<lparr>UserBase.email = ''a@x.com'', UserBase.username = ''alice'',
      UserBase.is_active = False, UserCreate.password = ''secret1''\<rparr>"
  have eq: "create_user demo_hash (CHR ''s'') 7 empty_session ?uc
              = (\<lparr>rows = [alice], next_id = 2\<rparr>, Inr alice)"
    by (simp add: create_user_def Let_def get_user_by_username_def get_user_by_email_def
        get_password_hash_def demo_hash_def empty_session_def alice_def)
  from create_user_is_active [where pwd_hash = demo_hash and salt = "CHR ''s''" and now = 7
      and session = empty_session and user_create = ?uc and b = False] eq
  have "User.is_active alice" by blast
  with eq show ?thesis by (simp add: UserCreate_valid_def)
qed

end
